theory Spec2Isabelle
  imports Complex_Main
begin

section \<open>Spectrum manipulation utilities of specutils\<close>

text \<open>
  A shallow embedding of \<^verbatim>\<open>specutils/manipulation/utils.py\<close>: the functions
  \<^verbatim>\<open>linear_exciser\<close>, \<^verbatim>\<open>excise_regions\<close>, \<^verbatim>\<open>excise_region\<close> and
  \<^verbatim>\<open>spectrum_from_model\<close>.

  Modelling decisions:
  \<^item> numpy's float arrays are lists of \<open>float64\<close>: a real number, an infinity or NaN.
    Arithmetic overflows to an infinity and propagates infinities and NaN as IEEE 754
    does; the rounding of a finite result to the nearest double and the sign of zero are
    not modelled;
  \<^item> numpy arrays that the code writes to live in an explicit store, because
    \<^verbatim>\<open>linear_exciser\<close> assigns to a slice of an array it shares with its argument;
  \<^item> every exception is a value of type \<open>error\<close>, and every function returns the store
    together with either the error raised or the value returned;
  \<^item> Python's dynamic typing, which \<^verbatim>\<open>isinstance\<close> inspects, is a datatype of objects.
\<close>

subsection \<open>Errors\<close>

datatype error =
  ValueError string
  | IndexError
  | AttributeError
  | OtherError string

subsection \<open>Floating-point values\<close>

text \<open>
  A value of numpy's \<^verbatim>\<open>float64\<close>: a finite number, one of the two infinities, or NaN.
  The largest finite double is \<open>f64_max\<close>, which is \<open>(2^53 - 1) * 2^971\<close>. Under
  round-to-nearest an exact result of magnitude \<open>2^1024 - 2^970\<close> or more, the value
  \<open>f64_overflow\<close> half way between \<open>f64_max\<close> and \<open>2^1024\<close>, becomes an infinity;
  \<open>rnd\<close> does that and leaves every other result as it is. Both constants are written
  as multiples of \<open>2^970\<close>.
\<close>

datatype float64 = Finite real | PosInf | NegInf | NaN

definition f64_scale :: real where
  "f64_scale = 2 ^ 970"

definition f64_max :: real where
  "f64_max = (2 ^ 54 - 2) * f64_scale"

definition f64_overflow :: real where
  "f64_overflow = (2 ^ 54 - 1) * f64_scale"

definition rnd :: "real \<Rightarrow> float64" where
  "rnd r = (if r \<ge> f64_overflow then PosInf
            else if r \<le> - f64_overflow then NegInf
            else Finite r)"


text \<open>
  Negation, addition, subtraction, multiplication, and the division by an integer that
  \<^verbatim>\<open>np.linspace\<close> uses. Infinity minus infinity and zero times infinity are NaN, and NaN
  spreads through every operation. \<^verbatim>\<open>np.linspace\<close> divides by \<^verbatim>\<open>div\<close> only where
  \<^verbatim>\<open>div > 0\<close>; for a divisor of zero \<open>fdiv_int\<close> follows the division by positive zero.
\<close>

fun fneg :: "float64 \<Rightarrow> float64" where
  "fneg (Finite x) = Finite (- x)"
| "fneg PosInf = NegInf"
| "fneg NegInf = PosInf"
| "fneg NaN = NaN"

fun fadd :: "float64 \<Rightarrow> float64 \<Rightarrow> float64" where
  "fadd (Finite x) (Finite y) = rnd (x + y)"
| "fadd NaN _ = NaN"
| "fadd _ NaN = NaN"
| "fadd PosInf NegInf = NaN"
| "fadd NegInf PosInf = NaN"
| "fadd PosInf _ = PosInf"
| "fadd _ PosInf = PosInf"
| "fadd NegInf _ = NegInf"
| "fadd _ NegInf = NegInf"

definition fsub :: "float64 \<Rightarrow> float64 \<Rightarrow> float64" where
  "fsub a b = fadd a (fneg b)"

fun fsgn :: "float64 \<Rightarrow> real" where
  "fsgn (Finite x) = sgn x"
| "fsgn PosInf = 1"
| "fsgn NegInf = - 1"
| "fsgn NaN = 0"

fun fmul :: "float64 \<Rightarrow> float64 \<Rightarrow> float64" where
  "fmul (Finite x) (Finite y) = rnd (x * y)"
| "fmul NaN _ = NaN"
| "fmul _ NaN = NaN"
| "fmul a b = (if fsgn a * fsgn b = 0 then NaN
               else if fsgn a * fsgn b > 0 then PosInf else NegInf)"

fun fdiv_int :: "float64 \<Rightarrow> int \<Rightarrow> float64" where
  "fdiv_int (Finite x) d =
     (if d = 0 then (if x = 0 then NaN else if x > 0 then PosInf else NegInf)
      else rnd (x / real_of_int d))"
| "fdiv_int PosInf d = (if d < 0 then NegInf else PosInf)"
| "fdiv_int NegInf d = (if d < 0 then PosInf else NegInf)"
| "fdiv_int NaN d = NaN"

text \<open>
  The comparisons \<^verbatim>\<open><=\<close> and \<^verbatim>\<open><\<close>: false whenever an operand is NaN.
\<close>

fun fle :: "float64 \<Rightarrow> float64 \<Rightarrow> bool" where
  "fle NaN _ = False"
| "fle _ NaN = False"
| "fle (Finite x) (Finite y) = (x \<le> y)"
| "fle NegInf _ = True"
| "fle _ PosInf = True"
| "fle _ _ = False"

fun flt :: "float64 \<Rightarrow> float64 \<Rightarrow> bool" where
  "flt NaN _ = False"
| "flt _ NaN = False"
| "flt (Finite x) (Finite y) = (x < y)"
| "flt PosInf _ = False"
| "flt _ NegInf = False"
| "flt _ _ = True"

text \<open>A list of finite values, for writing arrays down.\<close>

abbreviation floats :: "real list \<Rightarrow> float64 list" where
  "floats \<equiv> map Finite"

subsection \<open>The store of numpy arrays\<close>

type_synonym addr = nat

record heap =
  arrays :: "addr \<Rightarrow> float64 list"
  fresh :: addr

text \<open>A new array is placed at the next unused address.\<close>

definition alloc :: "heap \<Rightarrow> float64 list \<Rightarrow> heap \<times> addr" where
  "alloc h xs = (h\<lparr>arrays := (arrays h)(fresh h := xs), fresh := Suc (fresh h)\<rparr>, fresh h)"

subsection \<open>Quantities, spectra and regions\<close>

type_synonym phys_unit = string

text \<open>An astropy \<^verbatim>\<open>Quantity\<close> held by value: its \<^verbatim>\<open>.value\<close> and its \<^verbatim>\<open>.unit\<close>.\<close>

record quantity =
  qvalue :: "float64 list"
  qunit :: phys_unit

text \<open>
  Modelled from the spec: the class \<^verbatim>\<open>Spectrum1D\<close> is imported from
  \<^verbatim>\<open>..spectra\<close> and is not part of the source at hand. The spec describes a spectrum
  as an ordered sequence of wavelength samples, a parallel flux sequence, optional
  uncertainty and optional coordinate and velocity metadata. The fields are the
  attributes that \<^verbatim>\<open>utils.py\<close> reads and the keyword arguments it passes to the
  constructor. The flux samples are the array at address \<open>data\<close> of the store.
\<close>

record spectrum1d =
  data :: addr
  unit :: phys_unit
  spectral_axis :: quantity
  uncertainty :: "float64 list option"
  wcs :: "string option"
  velocity_convention :: "string option"
  rest_value :: "float64 option"

text \<open>
  Modelled from the spec: the property \<^verbatim>\<open>Spectrum1D.flux\<close> and the view
  \<^verbatim>\<open>.value\<close> of the quantity it returns. The spec states that the array reached
  through \<^verbatim>\<open>spectrum.flux.value\<close> shares storage with the caller's spectrum, so
  \<open>flux_value_addr\<close> is the address of the spectrum's own array, not of a copy.
\<close>

definition flux_value_addr :: "spectrum1d \<Rightarrow> addr" where
  "flux_value_addr spectrum = data spectrum"

definition flux :: "heap \<Rightarrow> spectrum1d \<Rightarrow> quantity" where
  "flux h spectrum = \<lparr>qvalue = arrays h (flux_value_addr spectrum), qunit = unit spectrum\<rparr>"

text \<open>
  Modelled from the spec: the constructor \<^verbatim>\<open>Spectrum1D(flux=..., spectral_axis=...,
  uncertainty=..., wcs=..., unit=..., velocity_convention=..., rest_value=...)\<close>. It
  returns a new spectrum value; the flux quantity it is given is a freshly computed array
  at both call sites, which becomes the new spectrum's array at a new address. Without
  the keyword \<^verbatim>\<open>unit\<close> the flux quantity's unit is the spectrum's unit.
\<close>

definition Spectrum1D ::
  "heap \<Rightarrow> quantity \<Rightarrow> quantity \<Rightarrow> float64 list option \<Rightarrow> string option \<Rightarrow> phys_unit option
     \<Rightarrow> string option \<Rightarrow> float64 option \<Rightarrow> heap \<times> spectrum1d" where
  "Spectrum1D h flux_q axis_q unc w unit_kw vc rv =
     (let (h', a) = alloc h (qvalue flux_q)
      in (h', \<lparr>data = a,
               unit = (case unit_kw of Some u \<Rightarrow> u | None \<Rightarrow> qunit flux_q),
               spectral_axis = axis_q,
               uncertainty = unc,
               wcs = w,
               velocity_convention = vc,
               rest_value = rv\<rparr>))"

text \<open>
  Modelled from the spec: \<^verbatim>\<open>SpectralRegion\<close> is imported from \<^verbatim>\<open>..spectra\<close> as
  well. A region is a half-open wavelength interval; \<open>lower\<close> and \<open>upper\<close> are its
  bounds, given in the unit of the spectral axis they are compared with.
\<close>

record spectral_region =
  lower :: float64
  upper :: float64

subsection \<open>The numpy operations used\<close>

text \<open>\<^verbatim>\<open>np.nonzero(flags)[0]\<close>: the indices of the true entries, ascending.\<close>

definition nonzero :: "bool list \<Rightarrow> int list" where
  "nonzero flags = map int (filter (\<lambda>i. flags ! i) [0..<length flags])"

text \<open>
  \<^verbatim>\<open>np.linspace(start, stop, num)\<close> with the default \<^verbatim>\<open>endpoint=True\<close>, following
  numpy's implementation step by step: \<^verbatim>\<open>div = num - 1\<close>, \<^verbatim>\<open>delta = stop - start\<close>,
  \<^verbatim>\<open>y = arange(0, num)\<close>. With \<^verbatim>\<open>div > 0\<close>, \<^verbatim>\<open>step = delta / div\<close> and
  \<^verbatim>\<open>y = y * step\<close>, or \<^verbatim>\<open>y = y / div * delta\<close> when the step is zero; otherwise
  \<^verbatim>\<open>y = y * delta\<close>. Then \<^verbatim>\<open>y += start\<close>, and with more than one sample the last
  one is set to \<^verbatim>\<open>stop\<close>.
\<close>

definition linspace :: "float64 \<Rightarrow> float64 \<Rightarrow> nat \<Rightarrow> float64 list" where
  "linspace start stop num =
     (let dv = int num - 1;
          delta = fsub stop start;
          y = map (\<lambda>k. Finite (real k)) [0..<num];
          y1 = (if dv > 0
                then (let step = fdiv_int delta dv
                      in if step = Finite 0
                         then map (\<lambda>v. fmul (fdiv_int v dv) delta) y
                         else map (\<lambda>v. fmul v step) y)
                else map (\<lambda>v. fmul v delta) y);
          y2 = map (\<lambda>v. fadd v start) y1
      in if num > 1 then y2[num - 1 := stop] else y2)"

text \<open>
  The slice \<^verbatim>\<open>a[s:e]\<close> of a one-dimensional array for \<^verbatim>\<open>0 <= s\<close> and
  \<^verbatim>\<open>0 <= e\<close>: both bounds are clipped to the length, and the slice is empty when the
  clipped stop is not above the clipped start.
\<close>

definition slice_start :: "'a list \<Rightarrow> int \<Rightarrow> nat" where
  "slice_start a s = min (nat s) (length a)"

definition slice_stop :: "'a list \<Rightarrow> int \<Rightarrow> int \<Rightarrow> nat" where
  "slice_stop a s e = max (slice_start a s) (min (nat e) (length a))"

definition slice_size :: "'a list \<Rightarrow> int \<Rightarrow> int \<Rightarrow> nat" where
  "slice_size a s e = slice_stop a s e - slice_start a s"

text \<open>
  The assignment \<^verbatim>\<open>a[s:e] = vals\<close> for \<open>vals\<close> of the slice's size, which is the
  case at its only use: the value assigned there is a \<open>linspace\<close> of \<open>slice_size\<close> samples.
\<close>

definition set_slice :: "'a list \<Rightarrow> int \<Rightarrow> int \<Rightarrow> 'a list \<Rightarrow> 'a list" where
  "set_slice a s e vals = take (slice_start a s) a @ vals @ drop (slice_stop a s e) a"

subsection \<open>linear_exciser\<close>

text \<open>
  The indices \<open>s\<close> and \<open>e\<close> of line 50, from the non-empty list of matching indices.
\<close>

definition excise_start :: "int list \<Rightarrow> int" where
  "excise_start inclusive_indices = max (hd inclusive_indices - 1) 0"

definition excise_end :: "int list \<Rightarrow> nat \<Rightarrow> int" where
  "excise_end inclusive_indices axis_size = min (last inclusive_indices + 1) (int axis_size - 1)"

definition wavelengths_in :: "spectrum1d \<Rightarrow> spectral_region \<Rightarrow> bool list" where
  "wavelengths_in spectrum region =
     map (\<lambda>w. fle (lower region) w \<and> flt w (upper region))
       (qvalue (spectral_axis spectrum))"

text \<open>
  \<^verbatim>\<open>inclusive_indices[0]\<close> raises \<^verbatim>\<open>IndexError\<close> on an empty index array, and so do
  \<^verbatim>\<open>flux[s]\<close> and \<^verbatim>\<open>flux[e]\<close> for an index that is not below the length of the flux
  array. Neither \<open>s\<close> nor \<open>e\<close> is negative when there is a matching index (lemma
  \<open>excise_bounds\<close> below), so no index counts from the end of the array. The variable
  \<^verbatim>\<open>flux\<close> of the source is the array at address \<open>flux_a\<close>;
  \<^verbatim>\<open>modified_flux = flux\<close> binds a second name to the same array. The right-hand side
  of line 55 is evaluated before the slice is written, and
  \<^verbatim>\<open>modified_flux*spectrum.flux.unit\<close> is a new quantity with the array's values.
\<close>

definition linear_exciser ::
  "heap \<Rightarrow> spectrum1d \<Rightarrow> spectral_region \<Rightarrow> heap \<times> (error + spectrum1d)" where
  "linear_exciser h spectrum region =
     (let wavelengths = spectral_axis spectrum;
          inclusive_indices = nonzero (wavelengths_in spectrum region)
      in if inclusive_indices = [] then (h, Inl IndexError)
         else
           let s = excise_start inclusive_indices;
               e = excise_end inclusive_indices (length (qvalue wavelengths));
               flux_a = flux_value_addr spectrum;
               modified_flux = flux_a
           in if \<not> (nat s < length (arrays h flux_a) \<and> nat e < length (arrays h flux_a))
              then (h, Inl IndexError)
              else
                let ramp = linspace (arrays h flux_a ! nat s) (arrays h flux_a ! nat e)
                             (slice_size (arrays h modified_flux) s e);
                    h1 = h\<lparr>arrays := (arrays h)(modified_flux :=
                                         set_slice (arrays h modified_flux) s e ramp)\<rparr>;
                    (h2, result) =
                       Spectrum1D h1
                         \<lparr>qvalue = arrays h1 modified_flux, qunit = qunit (flux h1 spectrum)\<rparr>
                         wavelengths (uncertainty spectrum) (wcs spectrum) (Some (unit spectrum))
                         (velocity_convention spectrum) (rest_value spectrum)
                in (h2, Inr result))"

subsection \<open>excise_region and excise_regions\<close>

text \<open>
  The values a caller can pass for \<^verbatim>\<open>spectrum\<close> and \<^verbatim>\<open>region\<close>: a
  \<^verbatim>\<open>Spectrum1D\<close>, a \<^verbatim>\<open>SpectralRegion\<close>, or an object of any other type.
\<close>

datatype pyobj =
  PySpectrum1D spectrum1d
  | PySpectralRegion spectral_region
  | PyOther string

fun isinstance_Spectrum1D :: "pyobj \<Rightarrow> bool" where
  "isinstance_Spectrum1D (PySpectrum1D _) = True"
| "isinstance_Spectrum1D _ = False"

fun isinstance_SpectralRegion :: "pyobj \<Rightarrow> bool" where
  "isinstance_SpectralRegion (PySpectralRegion _) = True"
| "isinstance_SpectralRegion _ = False"

text \<open>
  An exciser is any callable of a spectrum and a region: it may change the store, raise,
  or return any object.
\<close>

type_synonym exciser = "heap \<Rightarrow> pyobj \<Rightarrow> pyobj \<Rightarrow> heap \<times> (error + pyobj)"

text \<open>
  \<open>linear_exciser\<close> as the default value of the parameter \<^verbatim>\<open>exciser\<close>. An object
  without the attributes it reads raises \<^verbatim>\<open>AttributeError\<close>.
\<close>

fun linear_exciser_obj :: exciser where
  "linear_exciser_obj h (PySpectrum1D spectrum) (PySpectralRegion region) =
     (case linear_exciser h spectrum region of
        (h', Inl err) \<Rightarrow> (h', Inl err)
      | (h', Inr result) \<Rightarrow> (h', Inr (PySpectrum1D result)))"
| "linear_exciser_obj h _ _ = (h, Inl AttributeError)"

definition excise_region :: "heap \<Rightarrow> pyobj \<Rightarrow> pyobj \<Rightarrow> exciser \<Rightarrow> heap \<times> (error + pyobj)" where
  "excise_region h spectrum region exciser =
     (if \<not> isinstance_Spectrum1D spectrum
      then (h, Inl (ValueError ''The spectrum parameter must be Spectrum1D object.''))
      else if \<not> isinstance_SpectralRegion region
      then (h, Inl (ValueError
              ''The region parameter must be a 2-tuples of start and end wavelengths.''))
      else exciser h spectrum region)"

text \<open>The \<^verbatim>\<open>for\<close> loop of \<^verbatim>\<open>excise_regions\<close>; an exception leaves it at once.\<close>

fun excise_regions_loop ::
  "heap \<Rightarrow> pyobj \<Rightarrow> pyobj list \<Rightarrow> exciser \<Rightarrow> heap \<times> (error + pyobj)" where
  "excise_regions_loop h spectrum [] exciser = (h, Inr spectrum)"
| "excise_regions_loop h spectrum (region # regions) exciser =
     (case excise_region h spectrum region exciser of
        (h', Inl err) \<Rightarrow> (h', Inl err)
      | (h', Inr spectrum') \<Rightarrow> excise_regions_loop h' spectrum' regions exciser)"

definition excise_regions ::
  "heap \<Rightarrow> pyobj \<Rightarrow> pyobj list \<Rightarrow> exciser \<Rightarrow> heap \<times> (error + pyobj)" where
  "excise_regions h spectrum regions exciser =
     (if \<not> isinstance_Spectrum1D spectrum
      then (h, Inl (ValueError ''The spectrum parameter must be Spectrum1D object.''))
      else excise_regions_loop h spectrum regions exciser)"

subsection \<open>spectrum_from_model\<close>

text \<open>
  The argument \<^verbatim>\<open>model_input\<close>: its attribute \<^verbatim>\<open>uses_quantity\<close> and its call.
  The call is given by its two cases: \<open>call_quantity\<close> is the model applied to a quantity
  (line 181), \<open>call_array\<close> is the model applied to a bare array of numbers (line 186),
  which returns a bare array. A call may raise.
\<close>

record model =
  uses_quantity :: bool
  call_quantity :: "quantity \<Rightarrow> error + quantity"
  call_array :: "float64 list \<Rightarrow> error + float64 list"

text \<open>\<^verbatim>\<open>array * unit\<close>: the quantity with the array's values and that unit.\<close>

definition times_unit :: "float64 list \<Rightarrow> phys_unit \<Rightarrow> quantity" where
  "times_unit ys u = \<lparr>qvalue = ys, qunit = u\<rparr>"

definition spectrum_from_model ::
  "heap \<Rightarrow> model \<Rightarrow> spectrum1d \<Rightarrow> heap \<times> (error + spectrum1d)" where
  "spectrum_from_model h model_input spectrum =
     (case (if uses_quantity model_input
            then call_quantity model_input (spectral_axis spectrum)
            else (case call_array model_input (qvalue (spectral_axis spectrum)) of
                    Inl err \<Rightarrow> Inl err
                  | Inr ys \<Rightarrow> Inr (times_unit ys (qunit (flux h spectrum))))) of
        Inl err \<Rightarrow> (h, Inl err)
      | Inr flux_q \<Rightarrow>
          let (h', result) =
                Spectrum1D h flux_q (spectral_axis spectrum) None (wcs spectrum) None
                  (velocity_convention spectrum) (rest_value spectrum)
          in (h', Inr result))"

subsection \<open>The index range that linear_exciser works on\<close>

text \<open>
  The values of \<open>s\<close> and \<open>e\<close> for a spectrum and a region: the first matching index
  less one, not below 0, and the last matching index plus one, not above the last index.
\<close>

definition range_start :: "spectrum1d \<Rightarrow> spectral_region \<Rightarrow> nat" where
  "range_start sp r = nat (excise_start (nonzero (wavelengths_in sp r)))"

definition range_end :: "spectrum1d \<Rightarrow> spectral_region \<Rightarrow> nat" where
  "range_end sp r =
     nat (excise_end (nonzero (wavelengths_in sp r)) (length (qvalue (spectral_axis sp))))"

subsection \<open>Regions excised one after the other\<close>

text \<open>
  The spec's description of \<^verbatim>\<open>excise_regions\<close>: \<^verbatim>\<open>excise_region\<close> applied to each
  region in list order, each call on the spectrum the call before returned, as a left fold.
  Once a call has raised, nothing more is applied.
\<close>

definition excise_each_in_order ::
  "heap \<Rightarrow> pyobj \<Rightarrow> pyobj list \<Rightarrow> exciser \<Rightarrow> heap \<times> (error + pyobj)" where
  "excise_each_in_order h spectrum regions exciser =
     foldl (\<lambda>(h', res) region.
              case res of
                Inl err \<Rightarrow> (h', Inl err)
              | Inr spectrum' \<Rightarrow> excise_region h' spectrum' region exciser)
       (h, Inr spectrum) regions"

subsection \<open>A spectrum of five samples\<close>

text \<open>
  Wavelengths 1 to 5 with flux \<open>[0, 5, 2, 7, 1]\<close>. The region \<open>[3, 4)\<close> matches the
  sample at index 2 alone, so \<open>s = 1\<close> and \<open>e = 3\<close>; the region \<open>[10, 20)\<close> matches
  no sample; the region \<open>[1, 3)\<close> matches the samples at indices 0 and 1.
\<close>

definition ex_heap :: heap where
  "ex_heap = \<lparr>arrays = (\<lambda>_. [])(0 := floats [0, 5, 2, 7, 1]), fresh = 1\<rparr>"

definition ex_spectrum :: spectrum1d where
  "ex_spectrum =
     \<lparr>data = 0, unit = ''Jy'',
      spectral_axis = \<lparr>qvalue = floats [1, 2, 3, 4, 5], qunit = ''nm''\<rparr>,
      uncertainty = Some (floats [1, 1, 1, 1, 1]), wcs = None, velocity_convention = None,
      rest_value = None\<rparr>"

definition ex_region :: spectral_region where
  "ex_region = \<lparr>lower = Finite 3, upper = Finite 4\<rparr>"

definition ex_region_outside :: spectral_region where
  "ex_region_outside = \<lparr>lower = Finite 10, upper = Finite 20\<rparr>"

definition ex_region_left :: spectral_region where
  "ex_region_left = \<lparr>lower = Finite 1, upper = Finite 3\<rparr>"

text \<open>
  A spectrum of three samples whose first and last flux values are the largest finite
  double and its negative; the region \<open>[2, 3)\<close> matches the sample at index 1.
\<close>

definition big_heap :: heap where
  "big_heap =
     \<lparr>arrays = (\<lambda>_. [])(0 := [Finite f64_max, Finite 0, Finite (- f64_max)]), fresh = 1\<rparr>"

definition big_spectrum :: spectrum1d where
  "big_spectrum =
     \<lparr>data = 0, unit = ''Jy'',
      spectral_axis = \<lparr>qvalue = floats [1, 2, 3], qunit = ''nm''\<rparr>,
      uncertainty = None, wcs = None, velocity_convention = None, rest_value = None\<rparr>"


text \<open>
  Two models: one that understands units and doubles the wavelengths into a flux in mJy,
  and one that does not and adds one to each bare wavelength.
\<close>

definition ex_unit_aware_model :: model where
  "ex_unit_aware_model =
     \<lparr>uses_quantity = True,
      call_quantity =
        (\<lambda>q. Inr \<lparr>qvalue = map (\<lambda>x. fmul (Finite 2) x) (qvalue q), qunit = ''mJy''\<rparr>),
      call_array = (\<lambda>xs. Inl (OtherError ''UnitsError''))\<rparr>"

definition ex_plain_model :: model where
  "ex_plain_model =
     \<lparr>uses_quantity = False,
      call_quantity = (\<lambda>q. Inl (OtherError ''UnitsError'')),
      call_array = (\<lambda>xs. Inr (map (\<lambda>x. fadd x (Finite 1)) xs))\<rparr>"

section \<open>Properties\<close>

subsection \<open>Matching indices and the range\<close>

lemma nonzero_bounds: "i \<in> set (nonzero flags) \<Longrightarrow> 0 \<le> i \<and> i < int (length flags)"
  by (auto simp: nonzero_def)

lemma nonzero_sorted: "sorted (nonzero flags)"
  unfolding nonzero_def by (simp add: sorted_map sorted_wrt_filter)

lemma nonzero_empty_iff: "nonzero flags = [] \<longleftrightarrow> (\<forall>b \<in> set flags. \<not> b)"
  by (auto simp: nonzero_def filter_empty_conv in_set_conv_nth)

lemma hd_le_last: "sorted xs \<Longrightarrow> xs \<noteq> [] \<Longrightarrow> hd xs \<le> last (xs :: int list)"
  by (cases xs) (auto)

lemma excise_bounds:
  assumes "nonzero flags \<noteq> []"
  shows "0 \<le> excise_start (nonzero flags)"
    and "excise_start (nonzero flags) \<le> excise_end (nonzero flags) (length flags)"
    and "excise_end (nonzero flags) (length flags) < int (length flags)"
proof -
  let ?idx = "nonzero flags"
  have h: "0 \<le> hd ?idx" "hd ?idx < int (length flags)"
    using assms nonzero_bounds [of "hd ?idx" flags] by auto
  have l: "0 \<le> last ?idx" "last ?idx < int (length flags)"
    using assms nonzero_bounds [of "last ?idx" flags] by auto
  have hl: "hd ?idx \<le> last ?idx"
    using assms nonzero_sorted hd_le_last by blast
  show "0 \<le> excise_start ?idx" by (simp add: excise_start_def)
  show "excise_start ?idx \<le> excise_end ?idx (length flags)"
    using h l hl unfolding excise_start_def excise_end_def by linarith
  show "excise_end ?idx (length flags) < int (length flags)"
    by (simp add: excise_end_def)
qed

lemma length_linspace: "length (linspace a b n) = n"
  by (simp add: linspace_def Let_def)


lemma wavelengths_in_length:
  "length (wavelengths_in sp r) = length (qvalue (spectral_axis sp))"
  by (simp add: wavelengths_in_def)

lemma range_bounds:
  assumes "nonzero (wavelengths_in sp r) \<noteq> []"
  shows "range_start sp r \<le> range_end sp r"
    and "range_end sp r < length (qvalue (spectral_axis sp))"
  using excise_bounds [OF assms] unfolding range_start_def range_end_def wavelengths_in_length
  by linarith+

lemma linear_exciser_returns:
  assumes m: "nonzero (wavelengths_in sp r) \<noteq> []"
    and len: "range_end sp r < length (arrays h (data sp))"
  shows "linear_exciser h sp r =
     (let f = arrays h (data sp); s = range_start sp r; e = range_end sp r;
          g = take s f @ linspace (f ! s) (f ! e) (e - s) @ drop e f
      in (\<lparr>arrays = (arrays h)(data sp := g, fresh h := g), fresh = Suc (fresh h)\<rparr>,
          Inr (sp\<lparr>data := fresh h\<rparr>)))"
proof -
  have b: "range_start sp r \<le> range_end sp r"
    using range_bounds [OF m] by simp
  show ?thesis
    using m b len
    by (simp add: linear_exciser_def Let_def flux_value_addr_def flux_def Spectrum1D_def alloc_def
         slice_size_def slice_start_def slice_stop_def set_slice_def
         range_start_def [symmetric] range_end_def [symmetric] min_def max_def)
qed

lemma linear_exciser_Inr_iff:
  "(\<exists>h' sp'. linear_exciser h sp r = (h', Inr sp')) \<longleftrightarrow>
     nonzero (wavelengths_in sp r) \<noteq> [] \<and> range_end sp r < length (arrays h (data sp))"
proof
  assume "\<exists>h' sp'. linear_exciser h sp r = (h', Inr sp')"
  then show "nonzero (wavelengths_in sp r) \<noteq> [] \<and> range_end sp r < length (arrays h (data sp))"
    by (auto simp: linear_exciser_def Let_def flux_value_addr_def range_end_def
          split: if_splits prod.splits)
next
  assume "nonzero (wavelengths_in sp r) \<noteq> [] \<and> range_end sp r < length (arrays h (data sp))"
  then show "\<exists>h' sp'. linear_exciser h sp r = (h', Inr sp')"
    using linear_exciser_returns [of sp r h] by (simp add: Let_def)
qed

text \<open>The samples of the excised array, by position.\<close>

lemma excised_nth:
  fixes f L :: "float64 list"
  assumes "s \<le> e" "e < length f" "length L = e - s"
  shows "length (take s f @ L @ drop e f) = length f"
    and "i < s \<Longrightarrow> (take s f @ L @ drop e f) ! i = f ! i"
    and "s \<le> i \<Longrightarrow> i < e \<Longrightarrow> (take s f @ L @ drop e f) ! i = L ! (i - s)"
    and "e \<le> i \<Longrightarrow> i < length f \<Longrightarrow> (take s f @ L @ drop e f) ! i = f ! i"
  using assms by (auto simp: nth_append)

subsection \<open>Overflow and the samples of linspace\<close>

lemma f64_scale_ge_1: "1 \<le> f64_scale"
  by (simp add: f64_scale_def)

lemma f64_overflow_large: "1000 < f64_overflow"
proof -
  have "(1000::real) < (2 ^ 54 - 1) * 1" by simp
  also have "\<dots> \<le> (2 ^ 54 - 1) * f64_scale"
    by (intro mult_left_mono f64_scale_ge_1) simp
  finally show ?thesis by (simp add: f64_overflow_def)
qed

lemma f64_max_finite: "f64_max < f64_overflow"
proof -
  have "0 < f64_scale" using f64_scale_ge_1 by linarith
  then have "(2 ^ 54 - 2) * f64_scale < (2 ^ 54 - 1) * f64_scale"
    by (intro mult_strict_right_mono) simp_all
  then show ?thesis by (simp add: f64_max_def f64_overflow_def)
qed



lemma rnd_finite: "\<bar>r\<bar> < f64_overflow \<Longrightarrow> rnd r = Finite r"
  by (auto simp: rnd_def)

lemma rnd_small: "\<bar>r\<bar> \<le> 1000 \<Longrightarrow> rnd r = Finite r"
  using f64_overflow_large by (intro rnd_finite) linarith

















subsection \<open>linear_exciser on the five samples\<close>

lemma nonzero_ex: "nonzero (wavelengths_in ex_spectrum ex_region) = [2]"
  by (simp add: nonzero_def wavelengths_in_def ex_spectrum_def ex_region_def upt_conv_Cons)

lemma ex_fields:
  "arrays ex_heap 0 = floats [0, 5, 2, 7, 1]" "fresh ex_heap = 1" "data ex_spectrum = 0"
  "qvalue (spectral_axis ex_spectrum) = floats [1, 2, 3, 4, 5]" "unit ex_spectrum = ''Jy''"
  by (simp_all add: ex_heap_def ex_spectrum_def)

lemma range_ex: "range_start ex_spectrum ex_region = 1" "range_end ex_spectrum ex_region = 3"
  by (simp_all add: range_start_def range_end_def nonzero_ex excise_start_def excise_end_def
        ex_fields)

lemma linspace_5_7:
  "linspace (Finite 5) (Finite 7) 2 = floats [5, 7]"
  "linspace (Finite 5) (Finite 7) 3 = floats [5, 6, 7]"
  by (simp_all add: linspace_def Let_def fsub_def rnd_small upt_conv_Cons)

lemma linear_exciser_ex:
  "linear_exciser ex_heap ex_spectrum ex_region =
     (\<lparr>arrays = (arrays ex_heap)(0 := floats [0, 5, 7, 7, 1], 1 := floats [0, 5, 7, 7, 1]), fresh = 2\<rparr>,
      Inr (ex_spectrum\<lparr>data := 1\<rparr>))"
proof -
  have "nonzero (wavelengths_in ex_spectrum ex_region) \<noteq> []"
    by (simp add: nonzero_ex)
  moreover have "range_end ex_spectrum ex_region < length (arrays ex_heap (data ex_spectrum))"
    by (simp add: range_ex ex_fields)
  ultimately show ?thesis
    by (simp add: linear_exciser_returns range_ex ex_fields linspace_5_7 Let_def)
qed

subsection \<open>A region that matches no sample\<close>

text \<open>
  Claim C3. For every spectrum and every region whose interval \<open>[lower, upper)\<close> contains
  no wavelength sample of the spectrum, \<open>linear_exciser\<close> raises \<^verbatim>\<open>IndexError\<close>, the
  error of reading element 0 of the empty index array; it returns no spectrum and raises
  no \<^verbatim>\<open>ValueError\<close> with a message. The store is as it was.
\<close>

theorem linear_exciser_no_match_raises:
  assumes "\<not> (\<exists>w \<in> set (qvalue (spectral_axis sp)). fle (lower r) w \<and> flt w (upper r))"
  shows "linear_exciser h sp r = (h, Inl IndexError)"
proof -
  from assms have "\<forall>b \<in> set (wavelengths_in sp r). \<not> b"
    by (auto simp: wavelengths_in_def)
  then have "nonzero (wavelengths_in sp r) = []"
    by (simp only: nonzero_empty_iff)
  then show ?thesis
    by (simp add: linear_exciser_def)
qed

theorem linear_exciser_no_match_raises_witness:
  "\<not> (\<exists>w \<in> set (qvalue (spectral_axis ex_spectrum)).
          fle (lower ex_region_outside) w \<and> flt w (upper ex_region_outside)) \<and>
   linear_exciser ex_heap ex_spectrum ex_region_outside = (ex_heap, Inl IndexError)"
proof -
  have h: "\<not> (\<exists>w \<in> set (qvalue (spectral_axis ex_spectrum)).
          fle (lower ex_region_outside) w \<and> flt w (upper ex_region_outside))"
    by (simp add: ex_fields ex_region_outside_def)
  from h linear_exciser_no_match_raises [OF h, of ex_heap] show ?thesis
    by blast
qed

subsection \<open>The flux that linear_exciser returns\<close>

text \<open>
  With \<open>f\<close> the flux before the call, the returned flux is \<open>f\<close> up to index \<open>s\<close>, then
  the \<open>e - s\<close> samples of \<open>linspace (f ! s) (f ! e)\<close>, then \<open>f\<close> from index \<open>e\<close> on.
\<close>

lemma flux_after_returns:
  assumes m: "nonzero (wavelengths_in sp r) \<noteq> []"
    and len: "range_end sp r < length (arrays h (data sp))"
    and res: "linear_exciser h sp r = (h', Inr sp')"
  shows "qvalue (flux h' sp') =
           take (range_start sp r) (qvalue (flux h sp)) @
           linspace (qvalue (flux h sp) ! range_start sp r) (qvalue (flux h sp) ! range_end sp r)
             (range_end sp r - range_start sp r) @
           drop (range_end sp r) (qvalue (flux h sp))"
    and "spectral_axis sp' = spectral_axis sp"
  using res unfolding linear_exciser_returns [OF m len]
  by (auto simp: Let_def flux_def flux_value_addr_def)


lemma flux_ex: "qvalue (flux ex_heap ex_spectrum) = floats [0, 5, 2, 7, 1]"
  by (simp add: flux_def flux_value_addr_def ex_fields)


lemma big_fields:
  "arrays big_heap 0 = [Finite f64_max, Finite 0, Finite (- f64_max)]" "fresh big_heap = 1"
  "data big_spectrum = 0" "qvalue (spectral_axis big_spectrum) = floats [1, 2, 3]"
  "unit big_spectrum = ''Jy''"
  by (simp_all add: big_heap_def big_spectrum_def)


lemma flux_big: "qvalue (flux big_heap big_spectrum) = [Finite f64_max, Finite 0, Finite (- f64_max)]"
  by (simp add: flux_def flux_value_addr_def big_fields)



text \<open>
  Claim C8. For every spectrum whose wavelength and flux sequences have equal length and
  every region that matches at least one sample, \<open>linear_exciser\<close> returns a spectrum
  with the same wavelength axis and a flux sequence of the same length, and every flux
  value at an index below \<open>s\<close> or above \<open>e\<close>, the matched index range extended by
  one sample on each side and clamped to the array, is the input's flux value there.
\<close>

theorem linear_exciser_preserves_shape:
  assumes len: "length (qvalue (flux h sp)) = length (qvalue (spectral_axis sp))"
    and m: "\<exists>w \<in> set (qvalue (spectral_axis sp)). fle (lower r) w \<and> flt w (upper r)"
  shows "\<exists>h' sp'. linear_exciser h sp r = (h', Inr sp') \<and>
           spectral_axis sp' = spectral_axis sp \<and>
           length (qvalue (flux h' sp')) = length (qvalue (flux h sp)) \<and>
           length (qvalue (flux h' sp')) = length (qvalue (spectral_axis sp')) \<and>
           (\<forall>i < length (qvalue (flux h sp)).
              i < range_start sp r \<or> range_end sp r < i \<longrightarrow>
              qvalue (flux h' sp') ! i = qvalue (flux h sp) ! i)"
proof -
  let ?f = "qvalue (flux h sp)"
  let ?s = "range_start sp r" and ?e = "range_end sp r"
  let ?L = "linspace (?f ! ?s) (?f ! ?e) (?e - ?s)"
  have f: "?f = arrays h (data sp)"
    by (simp add: flux_def flux_value_addr_def)
  from m have "\<not> (\<forall>b \<in> set (wavelengths_in sp r). \<not> b)"
    by (auto simp: wavelengths_in_def)
  then have ne: "nonzero (wavelengths_in sp r) \<noteq> []"
    using nonzero_empty_iff [of "wavelengths_in sp r"] by blast
  have b: "?s \<le> ?e" "?e < length ?f"
    using range_bounds [OF ne] len by simp_all
  then have b': "?e < length (arrays h (data sp))"
    by (simp add: f)
  obtain h' sp' where res: "linear_exciser h sp r = (h', Inr sp')"
    using linear_exciser_Inr_iff [of h sp r] ne b' by blast
  have g: "qvalue (flux h' sp') = take ?s ?f @ ?L @ drop ?e ?f"
    and ax: "spectral_axis sp' = spectral_axis sp"
    using flux_after_returns [OF ne b' res] by simp_all
  have lenL: "length ?L = ?e - ?s"
    by (simp add: length_linspace)
  have lg: "length (qvalue (flux h' sp')) = length ?f"
    unfolding g using excised_nth(1) [OF b lenL] .
  have out: "qvalue (flux h' sp') ! i = ?f ! i"
    if "i < length ?f" "i < ?s \<or> ?e < i" for i
    unfolding g using that excised_nth(2,4) [OF b lenL, of i] by auto
  show ?thesis
    using res ax lg out len by auto
qed

theorem linear_exciser_preserves_shape_witness:
  "length (qvalue (flux ex_heap ex_spectrum)) = length (qvalue (spectral_axis ex_spectrum)) \<and>
   (\<exists>w \<in> set (qvalue (spectral_axis ex_spectrum)). fle (lower ex_region) w \<and> flt w (upper ex_region)) \<and>
   (\<exists>h' sp'. linear_exciser ex_heap ex_spectrum ex_region = (h', Inr sp') \<and>
      spectral_axis sp' = spectral_axis ex_spectrum \<and>
      length (qvalue (flux h' sp')) = 5 \<and>
      qvalue (flux h' sp') ! 0 = Finite 0 \<and> qvalue (flux h' sp') ! 4 = Finite 1)"
proof -
  have len: "length (qvalue (flux ex_heap ex_spectrum)) = length (qvalue (spectral_axis ex_spectrum))"
    by (simp add: flux_def flux_value_addr_def ex_fields)
  have m: "\<exists>w \<in> set (qvalue (spectral_axis ex_spectrum)). fle (lower ex_region) w \<and> flt w (upper ex_region)"
    by (simp add: ex_fields ex_region_def)
  have f: "qvalue (flux ex_heap ex_spectrum) = floats [0, 5, 2, 7, 1]"
    by (simp add: flux_def flux_value_addr_def ex_fields)
  obtain h' sp' where res: "linear_exciser ex_heap ex_spectrum ex_region = (h', Inr sp')"
    and ax: "spectral_axis sp' = spectral_axis ex_spectrum"
    and lg: "length (qvalue (flux h' sp')) = length (qvalue (flux ex_heap ex_spectrum))"
    and out: "\<forall>i < length (qvalue (flux ex_heap ex_spectrum)).
              i < range_start ex_spectrum ex_region \<or> range_end ex_spectrum ex_region < i \<longrightarrow>
              qvalue (flux h' sp') ! i = qvalue (flux ex_heap ex_spectrum) ! i"
    using linear_exciser_preserves_shape [OF len m] by blast
  have "qvalue (flux h' sp') ! 0 = qvalue (flux ex_heap ex_spectrum) ! 0"
    using out [rule_format, of 0] by (simp add: f range_ex)
  moreover have "qvalue (flux h' sp') ! 4 = qvalue (flux ex_heap ex_spectrum) ! 4"
    using out [rule_format, of 4] by (simp add: f range_ex)
  ultimately have "qvalue (flux h' sp') ! 0 = Finite 0" "qvalue (flux h' sp') ! 4 = Finite 1"
    by (simp_all add: f)
  with len m res ax lg show ?thesis
    by (simp add: f)
qed





subsection \<open>Where linear_exciser departs from its documentation\<close>

text \<open>
  Claim C1. The claim is that the flux at every index of the inclusive range from \<open>s\<close>
  to \<open>e\<close> becomes a linearly spaced sequence from the flux at \<open>s\<close> to the flux at \<open>e\<close>.
  The slice \<^verbatim>\<open>modified_flux[s:e]\<close> stops before \<open>e\<close>, and the \<open>e - s\<close> samples
  written into it already run from the flux at \<open>s\<close> to the flux at \<open>e\<close>. On the five
  samples the range is 1 to 3 with boundary flux 5 and 7: the code leaves \<open>5, 7, 7\<close>
  there, and the linearly spaced sequence of three samples is \<open>5, 6, 7\<close>.
\<close>

theorem linear_exciser_ramp_ends_early:
  "\<exists>h' sp'. linear_exciser ex_heap ex_spectrum ex_region = (h', Inr sp') \<and>
     range_start ex_spectrum ex_region = 1 \<and> range_end ex_spectrum ex_region = 3 \<and>
     qvalue (flux ex_heap ex_spectrum) = floats [0, 5, 2, 7, 1] \<and>
     qvalue (flux h' sp') = floats [0, 5, 7, 7, 1] \<and>
     linspace (Finite 5) (Finite 7) 3 = floats [5, 6, 7]"
  by (simp add: linear_exciser_ex range_ex flux_ex linspace_5_7 flux_def flux_value_addr_def
        ex_fields)

text \<open>
  Claim C2. The claim is that the flux array of the input spectrum holds after the call
  what it held before. \<^verbatim>\<open>modified_flux = flux\<close> names the input's own array, and the
  slice assignment writes into it: on the five samples the input spectrum's flux is
  \<open>[0, 5, 2, 7, 1]\<close> before the call and \<open>[0, 5, 7, 7, 1]\<close> after it.
\<close>

theorem linear_exciser_writes_input_flux:
  "\<exists>h' sp'. linear_exciser ex_heap ex_spectrum ex_region = (h', Inr sp') \<and>
     qvalue (flux ex_heap ex_spectrum) = floats [0, 5, 2, 7, 1] \<and>
     qvalue (flux h' ex_spectrum) = floats [0, 5, 7, 7, 1]"
  by (simp add: linear_exciser_ex flux_ex flux_def flux_value_addr_def ex_fields)

subsection \<open>excise_region and excise_regions\<close>

lemma foldl_raised:
  "foldl (\<lambda>(h', res) region.
              case res of
                Inl err \<Rightarrow> (h', Inl err)
              | Inr spectrum' \<Rightarrow> excise_region h' spectrum' region exciser)
       (h, Inl err) regions = (h, Inl err)"
  by (induction regions) simp_all

lemma excise_regions_loop_fold:
  "excise_regions_loop h spectrum regions exciser =
     excise_each_in_order h spectrum regions exciser"
proof (induction regions arbitrary: h spectrum)
  case Nil
  show ?case by (simp add: excise_each_in_order_def)
next
  case (Cons region regions)
  show ?case
  proof (cases "excise_region h spectrum region exciser")
    case (Pair h' res)
    show ?thesis
    proof (cases res)
      case (Inl err)
      with Pair show ?thesis
        by (simp add: excise_each_in_order_def foldl_raised)
    next
      case (Inr spectrum')
      with Pair Cons.IH [of h' spectrum'] show ?thesis
        by (simp add: excise_each_in_order_def)
    qed
  qed
qed

lemma linear_exciser_ex_left:
  "linear_exciser
     \<lparr>arrays = (arrays ex_heap)
        (0 := [Finite 0, Finite 5, Finite 7, Finite 7, Finite 1],
         Suc 0 := [Finite 0, Finite 5, Finite 7, Finite 7, Finite 1]),
      fresh = 2\<rparr>
     (ex_spectrum\<lparr>data := Suc 0\<rparr>) ex_region_left =
   (\<lparr>arrays = (arrays ex_heap)
       (0 := [Finite 0, Finite 5, Finite 7, Finite 7, Finite 1],
        Suc 0 := [Finite 0, Finite 7, Finite 7, Finite 7, Finite 1],
        2 := [Finite 0, Finite 7, Finite 7, Finite 7, Finite 1]),
     fresh = 3\<rparr>,
    Inr (ex_spectrum\<lparr>data := 2\<rparr>))"
proof -
  let ?sp = "ex_spectrum\<lparr>data := Suc 0\<rparr>"
  have nz: "nonzero (wavelengths_in ?sp ex_region_left) = [0, 1]"
    by (simp add: nonzero_def wavelengths_in_def ex_fields ex_region_left_def upt_conv_Cons)
  have rg: "range_start ?sp ex_region_left = 0" "range_end ?sp ex_region_left = 2"
    by (simp_all add: range_start_def range_end_def nz excise_start_def excise_end_def ex_fields)
  have ls: "linspace (Finite 0) (Finite 7) 2 = floats [0, 7]"
    by (simp add: linspace_def Let_def fsub_def rnd_small upt_conv_Cons)
  show ?thesis
    by (subst linear_exciser_returns) (simp_all add: nz rg ls Let_def)
qed

text \<open>
  Claim C4. For every spectrum (an instance of \<^verbatim>\<open>Spectrum1D\<close>), every list of regions
  and every exciser, \<open>excise_regions\<close> returns what applying \<open>excise_region\<close> to each
  region in list order returns, each call on the spectrum and the store the call before
  left: the same store and the same spectrum or error.
\<close>

theorem excise_regions_sequential:
  assumes "isinstance_Spectrum1D spectrum"
  shows "excise_regions h spectrum regions exciser =
           excise_each_in_order h spectrum regions exciser"
  using assms by (simp add: excise_regions_def excise_regions_loop_fold)

theorem excise_regions_sequential_witness:
  "isinstance_Spectrum1D (PySpectrum1D ex_spectrum) \<and>
   excise_regions ex_heap (PySpectrum1D ex_spectrum)
     [PySpectralRegion ex_region, PySpectralRegion ex_region_left] linear_exciser_obj =
   excise_each_in_order ex_heap (PySpectrum1D ex_spectrum)
     [PySpectralRegion ex_region, PySpectralRegion ex_region_left] linear_exciser_obj \<and>
   (\<exists>h' result.
      excise_each_in_order ex_heap (PySpectrum1D ex_spectrum)
        [PySpectralRegion ex_region, PySpectralRegion ex_region_left] linear_exciser_obj =
        (h', Inr (PySpectrum1D result)) \<and>
      qvalue (flux h' result) = floats [0, 7, 7, 7, 1])"
proof -
  have t: "isinstance_Spectrum1D (PySpectrum1D ex_spectrum)"
    by simp
  note eq = excise_regions_sequential [OF t, of ex_heap
      "[PySpectralRegion ex_region, PySpectralRegion ex_region_left]" linear_exciser_obj]
  let ?h = "\<lparr>arrays = (arrays ex_heap)(0 := floats [0, 5, 7, 7, 1], Suc 0 := floats [0, 7, 7, 7, 1],
        2 := floats [0, 7, 7, 7, 1]), fresh = 3\<rparr>"
  have "excise_regions ex_heap (PySpectrum1D ex_spectrum)
     [PySpectralRegion ex_region, PySpectralRegion ex_region_left] linear_exciser_obj =
     (?h, Inr (PySpectrum1D (ex_spectrum\<lparr>data := 2\<rparr>)))"
    by (simp add: excise_regions_def excise_region_def linear_exciser_ex linear_exciser_ex_left)
  with eq have "excise_each_in_order ex_heap (PySpectrum1D ex_spectrum)
     [PySpectralRegion ex_region, PySpectralRegion ex_region_left] linear_exciser_obj =
     (?h, Inr (PySpectrum1D (ex_spectrum\<lparr>data := 2\<rparr>)))"
    by simp
  moreover have "qvalue (flux ?h (ex_spectrum\<lparr>data := 2\<rparr>)) = floats [0, 7, 7, 7, 1]"
    by (simp add: flux_def flux_value_addr_def)
  ultimately show ?thesis
    using eq t by blast
qed

text \<open>
  Claim C7. \<open>excise_region\<close> raises \<^verbatim>\<open>ValueError\<close> when its spectrum argument is not a
  \<^verbatim>\<open>Spectrum1D\<close>, and when its region argument is not a \<^verbatim>\<open>SpectralRegion\<close>. In
  both cases the result is the same for every exciser and the store is untouched, so the
  exciser has not been called. When both arguments have the expected types the result is
  exactly what the exciser returns or raises.
\<close>

theorem excise_region_validation:
  "(\<not> isinstance_Spectrum1D spectrum \<longrightarrow>
      excise_region h spectrum region exciser =
        (h, Inl (ValueError ''The spectrum parameter must be Spectrum1D object.''))) \<and>
   (isinstance_Spectrum1D spectrum \<and> \<not> isinstance_SpectralRegion region \<longrightarrow>
      excise_region h spectrum region exciser =
        (h, Inl (ValueError
           ''The region parameter must be a 2-tuples of start and end wavelengths.''))) \<and>
   (isinstance_Spectrum1D spectrum \<and> isinstance_SpectralRegion region \<longrightarrow>
      excise_region h spectrum region exciser = exciser h spectrum region)"
  by (simp add: excise_region_def)

theorem excise_region_validation_witness:
  "excise_region ex_heap (PyOther ''a list'') (PySpectralRegion ex_region) linear_exciser_obj =
     (ex_heap, Inl (ValueError ''The spectrum parameter must be Spectrum1D object.'')) \<and>
   excise_region ex_heap (PySpectrum1D ex_spectrum) (PyOther ''a tuple'') linear_exciser_obj =
     (ex_heap, Inl (ValueError
        ''The region parameter must be a 2-tuples of start and end wavelengths.'')) \<and>
   excise_region ex_heap (PySpectrum1D ex_spectrum) (PySpectralRegion ex_region)
     linear_exciser_obj =
     linear_exciser_obj ex_heap (PySpectrum1D ex_spectrum) (PySpectralRegion ex_region)"
  using excise_region_validation [of "PyOther ''a list''" ex_heap "PySpectralRegion ex_region"
      linear_exciser_obj]
    excise_region_validation [of "PySpectrum1D ex_spectrum" ex_heap "PyOther ''a tuple''"
      linear_exciser_obj]
    excise_region_validation [of "PySpectrum1D ex_spectrum" ex_heap "PySpectralRegion ex_region"
      linear_exciser_obj]
  by simp

text \<open>
  Claim C10. For every \<^verbatim>\<open>Spectrum1D\<close>, \<open>excise_regions\<close> on the empty list of regions
  returns that same spectrum and leaves the store as it was, whatever the exciser is: no
  exciser is called and no region is inspected.
\<close>

theorem excise_regions_empty:
  "excise_regions h (PySpectrum1D spectrum) [] exciser = (h, Inr (PySpectrum1D spectrum))"
  by (simp add: excise_regions_def)

theorem excise_regions_empty_witness:
  "excise_regions ex_heap (PySpectrum1D ex_spectrum) [] linear_exciser_obj =
     (ex_heap, Inr (PySpectrum1D ex_spectrum)) \<and>
   excise_regions ex_heap (PySpectrum1D ex_spectrum) [] (\<lambda>h s r. (h, Inl IndexError)) =
     (ex_heap, Inr (PySpectrum1D ex_spectrum))"
  using excise_regions_empty [of ex_heap ex_spectrum linear_exciser_obj]
    excise_regions_empty [of ex_heap ex_spectrum "\<lambda>h s r. (h, Inl IndexError)"]
  by simp

subsection \<open>spectrum_from_model\<close>

lemma spectrum_from_model_ex:
  "spectrum_from_model ex_heap ex_plain_model ex_spectrum =
     (\<lparr>arrays = (arrays ex_heap)(1 := floats [2, 3, 4, 5, 6]), fresh = 2\<rparr>,
      Inr (ex_spectrum\<lparr>data := 1, uncertainty := None\<rparr>))"
  by (simp add: spectrum_from_model_def ex_plain_model_def Spectrum1D_def alloc_def times_unit_def
        flux_def ex_fields ex_spectrum_def rnd_small)

text \<open>
  Claim C5. When the model understands units and its call on the spectrum's wavelength
  axis returns a quantity, \<open>spectrum_from_model\<close> returns a spectrum whose flux is that
  quantity. When the model does not, and its call on the bare wavelength values returns
  an array, the returned spectrum's flux is that array times the unit of the input
  spectrum's flux.
\<close>

theorem spectrum_from_model_flux:
  "(uses_quantity model_input \<and>
    call_quantity model_input (spectral_axis spectrum) = Inr q \<longrightarrow>
      (\<exists>h' result. spectrum_from_model h model_input spectrum = (h', Inr result) \<and>
         flux h' result = q)) \<and>
   (\<not> uses_quantity model_input \<and>
    call_array model_input (qvalue (spectral_axis spectrum)) = Inr ys \<longrightarrow>
      (\<exists>h' result. spectrum_from_model h model_input spectrum = (h', Inr result) \<and>
         flux h' result = times_unit ys (qunit (flux h spectrum))))"
  by (simp add: spectrum_from_model_def Spectrum1D_def alloc_def Let_def flux_def
        flux_value_addr_def times_unit_def)


theorem spectrum_from_model_flux_witness:
  "(\<exists>h' result.
      spectrum_from_model ex_heap ex_unit_aware_model ex_spectrum = (h', Inr result) \<and>
      flux h' result = \<lparr>qvalue = floats [2, 4, 6, 8, 10], qunit = ''mJy''\<rparr>) \<and>
   (\<exists>h' result.
      spectrum_from_model ex_heap ex_plain_model ex_spectrum = (h', Inr result) \<and>
      flux h' result = \<lparr>qvalue = floats [2, 3, 4, 5, 6], qunit = ''Jy''\<rparr>)"
proof -
  have a: "uses_quantity ex_unit_aware_model \<and>
      call_quantity ex_unit_aware_model (spectral_axis ex_spectrum) =
        Inr \<lparr>qvalue = floats [2, 4, 6, 8, 10], qunit = ''mJy''\<rparr>"
    by (simp add: ex_unit_aware_model_def ex_fields rnd_small)
  have b: "\<not> uses_quantity ex_plain_model \<and>
      call_array ex_plain_model (qvalue (spectral_axis ex_spectrum)) = Inr (floats [2, 3, 4, 5, 6])"
    by (simp add: ex_plain_model_def ex_fields rnd_small)
  have u: "times_unit (floats [2, 3, 4, 5, 6]) (qunit (flux ex_heap ex_spectrum)) =
      \<lparr>qvalue = floats [2, 3, 4, 5, 6], qunit = ''Jy''\<rparr>"
    by (simp add: times_unit_def flux_def ex_fields)
  from a spectrum_from_model_flux [of ex_unit_aware_model ex_spectrum
      "\<lparr>qvalue = floats [2, 4, 6, 8, 10], qunit = ''mJy''\<rparr>" ex_heap]
  have first: "\<exists>h' result.
      spectrum_from_model ex_heap ex_unit_aware_model ex_spectrum = (h', Inr result) \<and>
      flux h' result = \<lparr>qvalue = floats [2, 4, 6, 8, 10], qunit = ''mJy''\<rparr>"
    by blast
  from b spectrum_from_model_flux [of ex_plain_model ex_spectrum _ ex_heap "floats [2, 3, 4, 5, 6]"]
  have "\<exists>h' result.
      spectrum_from_model ex_heap ex_plain_model ex_spectrum = (h', Inr result) \<and>
      flux h' result = times_unit (floats [2, 3, 4, 5, 6]) (qunit (flux ex_heap ex_spectrum))"
    by blast
  with first show ?thesis
    by (simp only: u)
qed

text \<open>
  Claim C6. Every spectrum that \<open>spectrum_from_model\<close> returns has the wavelength axis
  of the input spectrum and no uncertainty.
\<close>

theorem spectrum_from_model_axis:
  assumes "spectrum_from_model h model_input spectrum = (h', Inr result)"
  shows "spectral_axis result = spectral_axis spectrum \<and> uncertainty result = None"
  using assms
  by (auto simp: spectrum_from_model_def Spectrum1D_def alloc_def Let_def
        split: if_splits sum.splits)

theorem spectrum_from_model_axis_witness:
  "uncertainty ex_spectrum = Some (floats [1, 1, 1, 1, 1]) \<and>
   (\<exists>h' result. spectrum_from_model ex_heap ex_plain_model ex_spectrum = (h', Inr result) \<and>
      spectral_axis result = \<lparr>qvalue = floats [1, 2, 3, 4, 5], qunit = ''nm''\<rparr> \<and>
      uncertainty result = None)"
proof -
  obtain h' result where
    res: "spectrum_from_model ex_heap ex_plain_model ex_spectrum = (h', Inr result)"
    using spectrum_from_model_ex by blast
  from spectrum_from_model_axis [OF res] res show ?thesis
    by (simp add: ex_spectrum_def)
qed

end
